theory Spec2Isabelle
  imports Main "HOL-Library.Sublist"
begin

section \<open>Strings of the host language\<close>

text \<open>
  A JavaScript string is a sequence of code units. It is modelled by \<^typ>\<open>string\<close>,
  a list of \<^typ>\<open>char\<close>, so the model covers the strings whose code units are below 256
  (ASCII and Latin-1). \<open>length\<close> counts code units, as \<open>.length\<close> does.
\<close>

definition endsWith :: "string \<Rightarrow> string \<Rightarrow> bool" where
  "endsWith s t = (length t \<le> length s \<and> drop (length s - length t) s = t)"

definition startsWith :: "string \<Rightarrow> string \<Rightarrow> bool" where
  "startsWith s t = (take (length t) s = t)"

definition includes' :: "string \<Rightarrow> char \<Rightarrow> bool" where
  "includes' s c = (c \<in> set s)"

text \<open>
  \<open>toLowerCase\<close> on code units below 256: \<open>A\<close>..\<open>Z\<close> and the Latin-1 capitals
  (0xC0..0xDE but the multiplication sign 0xD7) move up by 32, every other unit stays.
\<close>

definition lowerChar :: "char \<Rightarrow> char" where
  "lowerChar c =
     (let n = (of_char c :: nat)
      in if (65 \<le> n \<and> n \<le> 90) \<or> (192 \<le> n \<and> n \<le> 222 \<and> n \<noteq> 215)
         then char_of (n + 32) else c)"

definition toLowerCase :: "string \<Rightarrow> string" where
  "toLowerCase s = map lowerChar s"

text \<open>
  \<open>trim\<close> removes white space and line terminators from both ends. Below 256 these
  are tab, line feed, vertical tab, form feed, carriage return, space and the
  no-break space.
\<close>

definition isWhiteSpace :: "char \<Rightarrow> bool" where
  "isWhiteSpace c = ((of_char c :: nat) \<in> {9, 10, 11, 12, 13, 32, 160})"

definition trim :: "string \<Rightarrow> string" where
  "trim s = rev (dropWhile isWhiteSpace (rev (dropWhile isWhiteSpace s)))"

text \<open>The operator \<open>a || b\<close> on strings: the empty string is falsy.\<close>

definition orElse :: "string \<Rightarrow> string \<Rightarrow> string" where
  "orElse a b = (if a \<noteq> [] then a else b)"

text \<open>
  A thrown value: \<open>Error msg\<close> is \<open>new Error(msg)\<close> thrown by the code of the repository,
  \<open>Platform msg\<close> an exception of the platform (the \<open>TypeError\<close> of \<open>String\<close> or of
  \<open>new URL\<close>, the rejection of an aborted or failed \<open>fetch\<close>). A function that may throw
  returns \<open>exn + 'a\<close>, with \<open>Inl\<close> for the throw.
\<close>

datatype exn = Error string | Platform string

section \<open>The network safety filter (route.ts, isPrivateHostname)\<close>

definition PRIVATE_HOSTNAMES :: "string list" where
  "PRIVATE_HOSTNAMES = [''localhost'', ''0.0.0.0'', ''::1'']"

text \<open>The class \<open>\d\<close> of a regular expression without the unicode flag: \<open>0\<close>..\<open>9\<close>.\<close>

definition isDigit :: "char \<Rightarrow> bool" where
  "isDigit c = (48 \<le> (of_char c :: nat) \<and> (of_char c :: nat) \<le> 57)"

text \<open>
  \<open>(\d+)\<close> followed by something that is no digit: the group is the longest run of
  digits at the front, and it must not be empty. Since the next item of the pattern is
  a literal dot or the end of the input, a shorter run can never lead to a match, so the
  greedy choice is the only one.
\<close>

definition digitGroup :: "string \<Rightarrow> (string \<times> string) option" where
  "digitGroup s =
     (let g = takeWhile isDigit s
      in if g = [] then None else Some (g, dropWhile isDigit s))"

text \<open>The literal \<open>\.\<close> of the pattern.\<close>

fun literalDot :: "string \<Rightarrow> string option" where
  "literalDot [] = None"
| "literalDot (c # r) = (if c = CHR ''.'' then Some r else None)"

text \<open>
  \<open>hostname.match(/^(\d+)\.(\d+)\.(\d+)\.(\d+)$/)\<close>: the four groups, or \<open>None\<close> for
  \<open>null\<close>.
\<close>

definition ipv4Match :: "string \<Rightarrow> (string \<times> string \<times> string \<times> string) option" where
  "ipv4Match hostname =
     Option.bind (digitGroup hostname) (\<lambda>(g1, r1).
     Option.bind (literalDot r1) (\<lambda>r2.
     Option.bind (digitGroup r2) (\<lambda>(g2, r3).
     Option.bind (literalDot r3) (\<lambda>r4.
     Option.bind (digitGroup r4) (\<lambda>(g3, r5).
     Option.bind (literalDot r5) (\<lambda>r6.
     Option.bind (digitGroup r6) (\<lambda>(g4, r7).
     if r7 = [] then Some (g1, g2, g3, g4) else None)))))))"

text \<open>
  \<open>Number\<close> on a string of decimal digits. The source computes a double; the model
  computes the natural number the digits denote. The two agree below \<open>2^53\<close>, and a
  longer digit string denotes a double that is no smaller than \<open>2^53\<close>, so every
  comparison of the source with one of its constants (all below 256) has the same
  outcome in the model.
\<close>

definition Number :: "string \<Rightarrow> nat" where
  "Number ds = foldl (\<lambda>n c. 10 * n + ((of_char c :: nat) - 48)) 0 ds"

definition isPrivateHostname :: "string \<Rightarrow> bool" where
  "isPrivateHostname hostname =
     (if hostname \<in> set PRIVATE_HOSTNAMES then True
      else if endsWith hostname ''.local'' \<or> endsWith hostname ''.internal'' then True
      else if (case ipv4Match hostname of
                 None \<Rightarrow> False
               | Some (g1, g2, g3, g4) \<Rightarrow>
                   (let a = Number g1; b = Number g2
                    in if a = 10 \<or> a = 127 \<or> a = 0 then True
                       else if a = 192 \<and> b = 168 then True
                       else if a = 172 \<and> b \<ge> 16 \<and> b \<le> 31 then True
                       else if a = 169 \<and> b = 254 then True
                       else False))
      then True
      else if includes' hostname CHR '':'' \<and>
              (let lower = toLowerCase hostname
               in startsWith lower ''fe80:'' \<or> startsWith lower ''fc'' \<or> startsWith lower ''fd'')
      then True
      else False)"

text \<open>
  The rejection rules in the words of the specification, to be compared with the
  function above. A dotted quad is four non-empty groups of decimal digits joined by
  dots; an octet is the number its group denotes.
\<close>

definition digitString :: "string \<Rightarrow> bool" where
  "digitString g = (g \<noteq> [] \<and> list_all isDigit g)"

definition dottedQuad :: "string \<Rightarrow> string \<Rightarrow> string \<Rightarrow> string \<Rightarrow> string \<Rightarrow> bool" where
  "dottedQuad h g1 g2 g3 g4 =
     (h = g1 @ ''.'' @ g2 @ ''.'' @ g3 @ ''.'' @ g4 \<and>
      digitString g1 \<and> digitString g2 \<and> digitString g3 \<and> digitString g4)"

definition privateOctets :: "nat \<Rightarrow> nat \<Rightarrow> bool" where
  "privateOctets a b =
     (a = 10 \<or> a = 127 \<or> a = 0 \<or> (a = 192 \<and> b = 168) \<or> (a = 169 \<and> b = 254) \<or>
      (a = 172 \<and> 16 \<le> b \<and> b \<le> 31))"

definition specRejects :: "string \<Rightarrow> bool" where
  "specRejects h =
     (h = ''localhost'' \<or> h = ''0.0.0.0'' \<or> h = ''::1'' \<or>
      suffix ''.local'' h \<or> suffix ''.internal'' h \<or>
      (\<exists>g1 g2 g3 g4. dottedQuad h g1 g2 g3 g4 \<and> privateOctets (Number g1) (Number g2)) \<or>
      (CHR '':'' \<in> set h \<and>
       (prefix ''fe80:'' (toLowerCase h) \<or> prefix ''fc'' (toLowerCase h) \<or>
        prefix ''fd'' (toLowerCase h))))"

section \<open>The trace store (agent-traces.ts)\<close>

text \<open>
  A value of type \<open>unknown\<close>: what a tool receives and returns, and what a request body
  parses to. \<open>JOther\<close> stands for every value the other constructors leave out (a
  number that is no integer, a bigint, a function, an object with a cycle, ...).
\<close>

datatype jsval =
    JUndefined
  | JNull
  | JBool bool
  | JNum int
  | JStr string
  | JArr "jsval list"
  | JObj "(string \<times> jsval) list"
  | JOther nat

text \<open>
  The tagged union \<open>TraceEvent\<close>. The optional fields of a \<open>tool-error\<close> are options.
  Time stamps are readings of \<open>Date.now()\<close>.
\<close>

datatype TraceEvent =
    ToolCall (toolCallId: string) (toolName: string) (input': jsval) (timestamp: int)
  | ToolResult (toolCallId: string) (toolName: string) (output': jsval) (timestamp: int)
  | ToolError (toolCallId_opt: "string option") (toolName_opt: "string option")
      (error: string) (timestamp: int)
  | ToolOutputDenied (toolCallId: string) (toolName: string) (timestamp: int)

record AgentTrace =
  id' :: string
  prompt :: string
  model :: string
  sandboxId :: string
  startedAt :: int
  finishedAt :: "int option"
  events :: "TraceEvent list"

text \<open>
  The store: a \<open>Map\<close> from ids to traces and the array of ids in insertion order. The
  functions of the module mutate the one store of the process; here each takes the store
  and returns the new one. A trace object is reached only through the map, so a mutation
  of the object is an update of the map's entry.
\<close>

record TraceStore =
  traces :: "string \<rightharpoonup> AgentTrace"
  order :: "string list"

definition MAX_TRACES :: nat where
  "MAX_TRACES = 25"

definition MAX_SERIALIZED_LENGTH :: nat where
  "MAX_SERIALIZED_LENGTH = 4000"

definition emptyStore :: TraceStore where
  "emptyStore = \<lparr>traces = Map.empty, order = []\<rparr>"

text \<open>
  \<open>trimIfNeeded\<close>. The built-ins it calls are parameters: \<open>stringify v\<close> is
  \<open>Some\<close> of the string \<open>JSON.stringify(v)\<close> returns, and \<open>None\<close> when the \<open>try\<close> block
  is left by an exception (\<open>JSON.stringify\<close> throws, or it returns \<open>undefined\<close> and
  reading \<open>.length\<close> throws); \<open>toStr\<close> is \<open>String\<close>, which returns a string or
  throws. The call of \<open>String\<close> stands in the \<open>catch\<close> block with no handler around
  it, so its exception leaves \<open>trimIfNeeded\<close>.
\<close>

definition truncationMarker :: string where
  "truncationMarker = ''... [truncated]''"

definition trimIfNeeded ::
  "(jsval \<Rightarrow> string option) \<Rightarrow> (jsval \<Rightarrow> exn + string) \<Rightarrow> jsval \<Rightarrow> exn + jsval" where
  "trimIfNeeded stringify toStr v =
     (case stringify v of
        None \<Rightarrow> (case toStr v of Inl e \<Rightarrow> Inl e | Inr str \<Rightarrow> Inr (JStr str))
      | Some serialized \<Rightarrow>
          if length serialized \<le> MAX_SERIALIZED_LENGTH then Inr v
          else Inr (JStr (take MAX_SERIALIZED_LENGTH serialized @ truncationMarker)))"

text \<open>
  \<open>enforceLimit\<close>: while the order array is longer than the limit, shift its first id
  and, if that id is truthy, delete it from the map. A string is truthy unless it is
  empty. (On an empty array \<open>shift\<close> returns \<open>undefined\<close> and nothing is deleted; the
  loop condition excludes that case.)
\<close>

function enforceLimit :: "TraceStore \<Rightarrow> TraceStore" where
  "enforceLimit s =
     (if length (order s) > MAX_TRACES then
        (case order s of
           [] \<Rightarrow> s
         | oldest # rest \<Rightarrow>
             enforceLimit
               (if oldest \<noteq> [] then s\<lparr>order := rest, traces := (traces s)(oldest := None)\<rparr>
                else s\<lparr>order := rest\<rparr>))
      else s)"
  by pat_completeness auto
termination
  by (relation "measure (\<lambda>s. length (order s))") (auto split: if_splits)

declare enforceLimit.simps [simp del]

record StartParams =
  p_id :: string
  p_prompt :: string
  p_model :: string
  p_sandboxId :: string

text \<open>
  \<open>startTrace\<close>; \<open>now\<close> is the reading of \<open>Date.now()\<close>. The result is the new trace
  and the store.
\<close>

definition newTrace :: "int \<Rightarrow> StartParams \<Rightarrow> AgentTrace" where
  "newTrace now params =
     \<lparr>id' = p_id params, prompt = p_prompt params, model = p_model params,
      sandboxId = p_sandboxId params, startedAt = now, finishedAt = None, events = []\<rparr>"

definition startTrace :: "int \<Rightarrow> StartParams \<Rightarrow> TraceStore \<Rightarrow> AgentTrace \<times> TraceStore" where
  "startTrace now params s =
     (let trace = newTrace now params;
          s1 = s\<lparr>traces := (traces s)(p_id params \<mapsto> trace)\<rparr>;
          s2 = s1\<lparr>order := order s1 @ [p_id params]\<rparr>
      in (trace, enforceLimit s2))"

text \<open>
  The event as it is pushed: the payload of a call or a result goes through
  \<open>trimIfNeeded\<close>, whose exception leaves the function before the push.
\<close>

fun storedEvent ::
  "(jsval \<Rightarrow> string option) \<Rightarrow> (jsval \<Rightarrow> exn + string) \<Rightarrow> TraceEvent \<Rightarrow> exn + TraceEvent" where
  "storedEvent stringify toStr (ToolCall c n v t) =
     (case trimIfNeeded stringify toStr v of Inl e \<Rightarrow> Inl e | Inr w \<Rightarrow> Inr (ToolCall c n w t))"
| "storedEvent stringify toStr (ToolResult c n v t) =
     (case trimIfNeeded stringify toStr v of Inl e \<Rightarrow> Inl e | Inr w \<Rightarrow> Inr (ToolResult c n w t))"
| "storedEvent stringify toStr e = Inr e"

text \<open>
  \<open>appendTraceEvent\<close>: \<open>Inr\<close> of the new store when it returns, \<open>Inl\<close> when it throws
  (and then the store is as it was: nothing has been pushed). For an unknown id it
  returns before the payload is looked at.
\<close>

definition appendTraceEvent ::
  "(jsval \<Rightarrow> string option) \<Rightarrow> (jsval \<Rightarrow> exn + string) \<Rightarrow> string \<Rightarrow> TraceEvent \<Rightarrow> TraceStore \<Rightarrow>
     exn + TraceStore" where
  "appendTraceEvent stringify toStr traceId event s =
     (case traces s traceId of
        None \<Rightarrow> Inr s
      | Some trace \<Rightarrow>
          (case storedEvent stringify toStr event of
             Inl e \<Rightarrow> Inl e
           | Inr pushed \<Rightarrow>
               Inr (s\<lparr>traces := (traces s)(traceId \<mapsto>
                      trace\<lparr>events := events trace @ [pushed]\<rparr>)\<rparr>)))"

definition finishTrace :: "int \<Rightarrow> string \<Rightarrow> TraceStore \<Rightarrow> TraceStore" where
  "finishTrace now traceId s =
     (case traces s traceId of
        None \<Rightarrow> s
      | Some trace \<Rightarrow> s\<lparr>traces := (traces s)(traceId \<mapsto> trace\<lparr>finishedAt := Some now\<rparr>)\<rparr>)"

text \<open>\<open>getTrace\<close>: \<open>None\<close> is \<open>null\<close>.\<close>

definition getTrace :: "string \<Rightarrow> TraceStore \<Rightarrow> AgentTrace option" where
  "getTrace traceId s = traces s traceId"

text \<open>
  A call of the module, and a sequence of calls run from a store. A call that throws
  leaves the store as it was, and the sequence goes on with the next call (the caller
  has caught the exception).
\<close>

datatype call =
    Start int StartParams
  | Append string TraceEvent
  | Finish int string
  | Get string

fun exec :: "(jsval \<Rightarrow> string option) \<Rightarrow> (jsval \<Rightarrow> exn + string) \<Rightarrow> TraceStore \<Rightarrow> call \<Rightarrow> TraceStore" where
  "exec stringify toStr s (Start now params) = snd (startTrace now params s)"
| "exec stringify toStr s (Append traceId event) =
     (case appendTraceEvent stringify toStr traceId event s of Inl e \<Rightarrow> s | Inr s' \<Rightarrow> s')"
| "exec stringify toStr s (Finish now traceId) = finishTrace now traceId s"
| "exec stringify toStr s (Get traceId) = s"

definition run :: "(jsval \<Rightarrow> string option) \<Rightarrow> (jsval \<Rightarrow> exn + string) \<Rightarrow> TraceStore \<Rightarrow> call list \<Rightarrow> TraceStore" where
  "run stringify toStr s cs = foldl (exec stringify toStr) s cs"

text \<open>The ids of the \<open>startTrace\<close> calls of a sequence, in call order.\<close>

fun startedId :: "call \<Rightarrow> string list" where
  "startedId (Start now params) = [p_id params]"
| "startedId c = []"

definition startedIds :: "call list \<Rightarrow> string list" where
  "startedIds cs = concat (map startedId cs)"

subsection \<open>Sample inputs\<close>

definition sampleParams :: "string \<Rightarrow> StartParams" where
  "sampleParams i =
     \<lparr>p_id = i, p_prompt = ''What is 44 x 44?'', p_model = ''openai/gpt-5-nano'',
      p_sandboxId = ''sbx_1''\<rparr>"

text \<open>
  An instance of the two built-ins, for evaluation. A string is serialized between
  quotes and \<open>String\<close> returns it as it is; \<open>undefined\<close> is not serializable and
  \<open>String\<close> gives its name; \<open>JOther n\<close> is here an object without prototype that holds
  a bigint, as \<open>Object.assign(Object.create(null), { n: 1n })\<close> builds it, on which
  \<open>JSON.stringify\<close> and \<open>String\<close> both throw a \<open>TypeError\<close>; every other value is
  written \<open>null\<close>.
\<close>

fun sampleStringify :: "jsval \<Rightarrow> string option" where
  "sampleStringify (JStr x) = Some (''\"'' @ x @ ''\"'')"
| "sampleStringify JUndefined = None"
| "sampleStringify (JOther n) = None"
| "sampleStringify v = Some ''null''"

fun sampleString :: "jsval \<Rightarrow> exn + string" where
  "sampleString (JStr x) = Inr x"
| "sampleString JUndefined = Inr ''undefined''"
| "sampleString (JOther n) = Inl (Platform ''TypeError: Cannot convert object to primitive value'')"
| "sampleString v = Inr ''null''"

text \<open>Ids of growing length: the first is the empty string, all are distinct.\<close>

definition unaryId :: "nat \<Rightarrow> string" where
  "unaryId k = replicate k CHR ''a''"

definition startsUpto :: "nat \<Rightarrow> call list" where
  "startsUpto n = map (\<lambda>k. Start (int k) (sampleParams (unaryId k))) [0..<n]"

text \<open>The invariant of the store: the map and the order array hold the same ids, at most \<open>MAX_TRACES\<close> of them.\<close>

definition storeInv :: "TraceStore \<Rightarrow> bool" where
  "storeInv s = (dom (traces s) = set (order s) \<and> length (order s) \<le> MAX_TRACES)"

section \<open>The tools (route.ts)\<close>

subsection \<open>fetchJson\<close>

text \<open>
  What the function reads of \<open>new URL(url)\<close>: the protocol, the host name and the
  serialized URL (\<open>toString()\<close>).
\<close>

record URL =
  protocol :: string
  hostname :: string
  href :: string









subsection \<open>runInSandbox\<close>

text \<open>The result of a finished command: what \<open>exitCode\<close>, \<open>stdout()\<close> and \<open>stderr()\<close> give.\<close>

record CommandFinished =
  exitCode :: int
  stdout :: string
  stderr :: string

text \<open>
  The tool's \<open>execute\<close>. \<open>runCommand cmd args\<close> is \<open>activeSandbox.runCommand\<close> in the
  working directory \<open>/vercel/sandbox\<close>: \<open>Inl\<close> when the call rejects, \<open>Inr\<close> with the
  finished command otherwise. \<open>packages\<close> is optional; \<open>packages?.length\<close> is truthy
  when the list is there and not empty. The result of \<open>npm init\<close> is not looked at.
\<close>

definition runInSandbox_execute ::
  "(string \<Rightarrow> string list \<Rightarrow> exn + CommandFinished) \<Rightarrow> string \<Rightarrow> string list option \<Rightarrow> exn + string" where
  "runInSandbox_execute runCommand code packages =
     (let runCode =
        (case runCommand ''node'' [''-e'', code] of
           Inl e \<Rightarrow> Inl e
         | Inr result \<Rightarrow>
             (let out = trim (stdout result); err = trim (stderr result)
              in if exitCode result \<noteq> 0
                 then Inr (''Execution error: '' @ orElse (orElse err out) ''unknown error'')
                 else Inr (orElse (orElse out err) ''No output produced.'')))
      in case packages of
           None \<Rightarrow> runCode
         | Some ps \<Rightarrow>
             if ps = [] then runCode
             else
               (case runCommand ''npm'' [''init'', ''-y''] of
                  Inl e \<Rightarrow> Inl e
                | Inr initialized \<Rightarrow>
                    (case runCommand ''npm''
                            ([''install'', ''--no-fund'', ''--no-audit'', ''--silent''] @ ps) of
                       Inl e \<Rightarrow> Inl e
                     | Inr install \<Rightarrow>
                         (let installStdErr = trim (stderr install)
                          in if exitCode install \<noteq> 0
                             then Inr (''Package install failed: '' @
                                       orElse installStdErr ''unknown error'')
                             else runCode))))"

text \<open>
  A sample sandbox: \<open>node\<close> prints a number, \<open>npm init\<close> succeeds, \<open>npm install\<close> fails
  with a message on the error stream.
\<close>

definition sampleRunCommand :: "string \<Rightarrow> string list \<Rightarrow> exn + CommandFinished" where
  "sampleRunCommand cmd args =
     (if cmd = ''node'' then Inr \<lparr>exitCode = 0, stdout = ''1936'' @ [CHR 0x0A], stderr = []\<rparr>
      else if args = [''init'', ''-y''] then Inr \<lparr>exitCode = 0, stdout = ''{}'', stderr = []\<rparr>
      else Inr \<lparr>exitCode = 1, stdout = [], stderr = '' npm error 404 Not Found '' @ [CHR 0x0A]\<rparr>)"

definition failingRunCommand :: "string \<Rightarrow> string list \<Rightarrow> exn + CommandFinished" where
  "failingRunCommand cmd args =
     Inr \<lparr>exitCode = 1, stdout = '' partial '', stderr = [CHR 0x0A]\<rparr>"

definition silentRunCommand :: "string \<Rightarrow> string list \<Rightarrow> exn + CommandFinished" where
  "silentRunCommand cmd args = Inr \<lparr>exitCode = 0, stdout = '' '', stderr = [CHR 0x0A]\<rparr>"

section \<open>The request handler (route.ts, POST)\<close>

text \<open>
  \<open>requestSchema.safeParse(body)\<close>: the body must be an object (no array, not
  \<open>null\<close>) whose \<open>prompt\<close> is a string; the string is trimmed and must then have 1 to
  2000 code units. \<open>Some\<close> of the trimmed prompt is \<open>success\<close> with \<open>data.prompt\<close>,
  \<open>None\<close> is failure. The entries of a \<open>JObj\<close> have distinct keys, as the properties
  of a parsed object do.
\<close>

definition requestSchema_safeParse :: "jsval \<Rightarrow> string option" where
  "requestSchema_safeParse body =
     (case body of
        JObj entries \<Rightarrow>
          (case map_of entries ''prompt'' of
             Some (JStr p) \<Rightarrow>
               (let t = trim p in if 1 \<le> length t \<and> length t \<le> 2000 then Some t else None)
           | _ \<Rightarrow> None)
      | _ \<Rightarrow> None)"

text \<open>
  The same condition in the words of the specification: the body is a JSON object
  containing a prompt that, trimmed, has 1 to 2000 characters.
\<close>

definition validBody :: "jsval option \<Rightarrow> bool" where
  "validBody body =
     (\<exists>entries p. body = Some (JObj entries) \<and> map_of entries ''prompt'' = Some (JStr p) \<and>
        1 \<le> length (trim p) \<and> length (trim p) \<le> 2000)"

text \<open>\<open>!process.env.AI_GATEWAY_API_KEY\<close>: the variable is unset or empty.\<close>

definition credentialAbsent :: "string option \<Rightarrow> bool" where
  "credentialAbsent key = (case key of None \<Rightarrow> True | Some k \<Rightarrow> k = [])"

text \<open>The parts of \<open>result.fullStream\<close> the handler looks at; every other part is \<open>OtherPart\<close>.
  The error of a \<open>tool-error\<close> part is given as the message the handler extracts from it.\<close>

datatype part =
    TextDelta string
  | ToolCallPart string string jsval
  | ToolResultPart string string jsval
  | ToolErrorPart string string string
  | ToolOutputDeniedPart string string
  | OtherPart

text \<open>How the iteration of the stream ends: it is exhausted, or the iterator throws.\<close>

datatype streamEnd = Exhausted | IterationThrows string

text \<open>What the collaborators answer during one request.\<close>

datatype createOutcome = CreateRejects | CreateReturnsNull | Created string

datatype streamOutcome = StreamRejects | Streaming "part list" streamEnd

record World =
  w_body :: "jsval option"
  w_apiKey :: "string option"
  w_uuid :: string
  w_create :: createOutcome
  w_stream :: streamOutcome
  w_appendThrows :: "nat \<Rightarrow> string option"
  w_cancelAt :: "nat option"
  w_lateCancel :: bool
  w_stopThrows :: bool
  w_now :: "nat \<Rightarrow> int"

text \<open>
  \<open>w_body\<close> is the result of \<open>req.json()\<close> (\<open>None\<close> when it rejects, which the handler
  turns into \<open>null\<close>); \<open>w_uuid\<close> is \<open>randomUUID()\<close>; \<open>w_create\<close> is the outcome of
  \<open>Sandbox.create\<close>; \<open>w_stream\<close> is the outcome of \<open>agent.stream\<close> and, when it
  resolves, the parts the stream yields and how it ends; \<open>w_appendThrows i = Some m\<close>
  says that \<open>appendTraceEvent\<close> throws an error with message \<open>m\<close> when it is called
  for the \<open>tool-call\<close> or \<open>tool-result\<close> part at position \<open>i\<close> (for the other events
  it cannot throw); \<open>w_cancelAt = Some i\<close> says that the consumer cancels the response
  stream while the handler awaits the item at position \<open>i\<close> of the stream (the end of
  the stream is the position after the last part); \<open>w_lateCancel\<close> says that the
  consumer cancels after \<open>controller.close()\<close>, while chunks that were enqueued are
  still unread; \<open>w_stopThrows\<close> says whether \<open>stop()\<close> rejects; \<open>w_now i\<close> is the
  reading of \<open>Date.now()\<close> while the item at position \<open>i\<close> is handled. A request is
  one such world: streams are finite, and the handler runs on one thread, so the
  consumer's cancel can only run at an \<open>await\<close> or after \<open>start\<close> has returned.

  The calls the handler makes on its collaborators, in the order it makes them:
\<close>

datatype effect =
    SandboxCreate
  | StartTrace StartParams
  | AppendTraceEvent string TraceEvent
  | FinishTrace string
  | Enqueue string
  | Close
  | SandboxStop
  | ConsoleError string

datatype response =
    JsonResponse nat string
  | TextStreamResponse string

text \<open>\<open>try { await sandbox.stop() } catch (error) { console.error(...) }\<close>\<close>

definition stopSandbox :: "bool \<Rightarrow> effect list" where
  "stopSandbox stopThrows =
     SandboxStop # (if stopThrows then [ConsoleError ''Failed to stop sandbox:''] else [])"

text \<open>The \<open>cancel()\<close> callback of the stream.\<close>

definition cancel :: "string \<Rightarrow> bool \<Rightarrow> effect list" where
  "cancel traceId stopThrows = FinishTrace traceId # stopSandbox stopThrows"

text \<open>
  The \<open>finally\<close> block of \<open>start\<close>. On a stream that was cancelled \<open>controller.close()\<close>
  throws (the stream is no longer readable), which leaves the block before \<open>stop()\<close>.
\<close>

definition finallyBlock :: "string \<Rightarrow> bool \<Rightarrow> bool \<Rightarrow> effect list" where
  "finallyBlock traceId stopThrows cancelled =
     FinishTrace traceId # (if cancelled then [] else Close # stopSandbox stopThrows)"

text \<open>The \<open>catch\<close> block of \<open>start\<close>.\<close>

definition catchBlock :: "string \<Rightarrow> string \<Rightarrow> int \<Rightarrow> effect list" where
  "catchBlock traceId message now = [AppendTraceEvent traceId (ToolError None None message now)]"

text \<open>The message of the \<open>TypeError\<close> that \<open>controller.enqueue\<close> throws on a cancelled stream.\<close>

definition enqueueOnClosed :: string where
  "enqueueOnClosed = ''Invalid state: Controller is already closed''"

text \<open>
  How \<open>start\<close> is left: its \<open>finally\<close> block runs, and after it the \<open>cancel()\<close>
  callback once more if the consumer cancels late. A late cancel reaches the callback
  only while the stream is still readable, that is when it was not cancelled before and
  a chunk was enqueued (\<open>close()\<close> closes a stream with an empty queue at once, and a
  cancel of a closed stream does nothing). A cancel that falls into the \<open>await\<close> of
  \<open>stop()\<close> makes the same calls.
\<close>

definition leave :: "World \<Rightarrow> bool \<Rightarrow> bool \<Rightarrow> effect list" where
  "leave w cancelled enqueued =
     finallyBlock (w_uuid w) (w_stopThrows w) cancelled @
     (if w_lateCancel w \<and> enqueued \<and> \<not> cancelled
      then cancel (w_uuid w) (w_stopThrows w) else [])"

text \<open>
  The \<open>for await\<close> loop of \<open>start\<close> with its \<open>catch\<close> and \<open>finally\<close>, from position
  \<open>i\<close> of the stream on; \<open>cancelled\<close> says whether the consumer has cancelled already,
  \<open>enqueued\<close> whether a chunk was enqueued. A cancel due at this position runs first.
  Then the item is handled: a text delta is enqueued (which throws if the stream was
  cancelled), a tool part is mirrored into the trace (which can throw for a call and a
  result), another part is skipped, and the end of the stream leaves the loop. An
  exception goes to the \<open>catch\<close> block, which appends a \<open>tool-error\<close> event.
\<close>

fun start :: "World \<Rightarrow> nat \<Rightarrow> bool \<Rightarrow> bool \<Rightarrow> part list \<Rightarrow> streamEnd \<Rightarrow> effect list" where
  "start w i cancelled enqueued [] ending =
     (let due = (\<not> cancelled \<and> w_cancelAt w = Some i);
          cancelled' = (cancelled \<or> due)
      in (if due then cancel (w_uuid w) (w_stopThrows w) else []) @
         (case ending of
            Exhausted \<Rightarrow> []
          | IterationThrows message \<Rightarrow> catchBlock (w_uuid w) message (w_now w i)) @
         leave w cancelled' enqueued)"
| "start w i cancelled enqueued (p # ps) ending =
     (let due = (\<not> cancelled \<and> w_cancelAt w = Some i);
          cancelled' = (cancelled \<or> due);
          continue = start w (Suc i) cancelled' enqueued ps ending;
          caught = (\<lambda>message. catchBlock (w_uuid w) message (w_now w i) @
                              leave w cancelled' enqueued);
          append = (\<lambda>event. AppendTraceEvent (w_uuid w) event #
                             (case w_appendThrows w i of
                                None \<Rightarrow> continue
                              | Some message \<Rightarrow> caught message))
      in (if due then cancel (w_uuid w) (w_stopThrows w) else []) @
         (case p of
            TextDelta t \<Rightarrow>
              if cancelled' then caught enqueueOnClosed
              else Enqueue t # start w (Suc i) cancelled' True ps ending
          | ToolCallPart c n v \<Rightarrow> append (ToolCall c n v (w_now w i))
          | ToolResultPart c n v \<Rightarrow> append (ToolResult c n v (w_now w i))
          | ToolErrorPart c n message \<Rightarrow>
              AppendTraceEvent (w_uuid w) (ToolError (Some c) (Some n) message (w_now w i)) #
              continue
          | ToolOutputDeniedPart c n \<Rightarrow>
              AppendTraceEvent (w_uuid w) (ToolOutputDenied c n (w_now w i)) # continue
          | OtherPart \<Rightarrow> continue))"

text \<open>The outer \<open>catch\<close> block of \<open>POST\<close>; \<open>sandbox\<close> says whether the variable is set.\<close>

definition agentFailed :: "string \<Rightarrow> bool \<Rightarrow> bool \<Rightarrow> response \<times> effect list" where
  "agentFailed traceId stopThrows sandbox =
     (JsonResponse 500 ''Agent failed to run in sandbox.'',
      [ConsoleError ''Sandbox agent failed:'', FinishTrace traceId] @
      (if sandbox then stopSandbox stopThrows else []))"

text \<open>
  \<open>POST\<close>: the response and the calls made for the request, those made while the
  response streams included.
\<close>

definition POST :: "World \<Rightarrow> response \<times> effect list" where
  "POST w =
     (case requestSchema_safeParse (case w_body w of None \<Rightarrow> JNull | Some b \<Rightarrow> b) of
        None \<Rightarrow> (JsonResponse 400 ''Invalid request. Expected { prompt: string }.'', [])
      | Some promptText \<Rightarrow>
          if credentialAbsent (w_apiKey w)
          then (JsonResponse 500 ''Missing AI_GATEWAY_API_KEY. Set it in your env first.'', [])
          else
            (let traceId = w_uuid w
             in case w_create w of
                  CreateRejects \<Rightarrow>
                    (let (r, es) = agentFailed traceId (w_stopThrows w) False
                     in (r, SandboxCreate # es))
                | CreateReturnsNull \<Rightarrow>
                    (let (r, es) = agentFailed traceId (w_stopThrows w) False
                     in (r, SandboxCreate # es))
                | Created sbId \<Rightarrow>
                    (let begun =
                       [SandboxCreate,
                        StartTrace \<lparr>p_id = traceId, p_prompt = promptText,
                                    p_model = ''openai/gpt-5-nano'', p_sandboxId = sbId\<rparr>]
                     in case w_stream w of
                          StreamRejects \<Rightarrow>
                            (let (r, es) = agentFailed traceId (w_stopThrows w) True
                             in (r, begun @ es))
                        | Streaming parts ending \<Rightarrow>
                            (TextStreamResponse traceId,
                             begun @ start w 0 False False parts ending))))"

text \<open>Sample requests.\<close>

definition sampleWorld :: World where
  "sampleWorld =
     \<lparr>w_body = Some (JObj [(''prompt'', JStr '' What is 44 x 44? '')]),
      w_apiKey = Some ''key'',
      w_uuid = ''trace-1'',
      w_create = Created ''sbx_1'',
      w_stream = Streaming [ToolCallPart ''c1'' ''runInSandbox'' (JStr ''44*44''),
                            ToolResultPart ''c1'' ''runInSandbox'' (JStr ''1936''),
                            TextDelta ''1936''] Exhausted,
      w_appendThrows = (\<lambda>i. None),
      w_cancelAt = None,
      w_lateCancel = False,
      w_stopThrows = False,
      w_now = (\<lambda>i. 1000 + int i)\<rparr>"

section \<open>Properties of the network safety filter\<close>

subsection \<open>The pattern match, characterised\<close>

lemma dot_not_digit: "\<not> isDigit CHR ''.''"
  by (simp add: isDigit_def)

lemma digitGroup_dot:
  "digitString g \<Longrightarrow> digitGroup (g @ CHR ''.'' # r) = Some (g, CHR ''.'' # r)"
  by (simp add: digitGroup_def digitString_def list_all_iff takeWhile_append2
      dropWhile_append2 dot_not_digit)

lemma digitGroup_end: "digitString g \<Longrightarrow> digitGroup g = Some (g, [])"
  by (simp add: digitGroup_def digitString_def list_all_iff takeWhile_eq_all_conv[THEN iffD2]
      dropWhile_eq_Nil_conv[THEN iffD2])

lemma digitGroup_SomeD:
  assumes "digitGroup s = Some (g, r)"
  shows "s = g @ r" and "digitString g"
proof -
  from assms have g: "g = takeWhile isDigit s" and r: "r = dropWhile isDigit s" and ne: "g \<noteq> []"
    by (auto simp: digitGroup_def Let_def split: if_splits)
  show "s = g @ r" by (simp add: g r)
  show "digitString g"
    using ne by (auto simp: digitString_def list_all_iff g dest: set_takeWhileD)
qed

lemma literalDot_Some: "literalDot s = Some r \<longleftrightarrow> s = CHR ''.'' # r"
  by (cases s) auto

text \<open>
  The sequential matcher finds four groups exactly when the host name is a dotted quad
  with these groups; in particular the groups of a dotted quad are unique.
\<close>

lemma ipv4Match_dottedQuad:
  "ipv4Match h = Some (g1, g2, g3, g4) \<longleftrightarrow> dottedQuad h g1 g2 g3 g4"
proof
  assume "ipv4Match h = Some (g1, g2, g3, g4)"
  then obtain r1 r2 r3 r4 r5 r6 where
    a: "digitGroup h = Some (g1, r1)" and b: "literalDot r1 = Some r2" and
    c: "digitGroup r2 = Some (g2, r3)" and d: "literalDot r3 = Some r4" and
    e: "digitGroup r4 = Some (g3, r5)" and f: "literalDot r5 = Some r6" and
    g: "digitGroup r6 = Some (g4, [])"
    by (auto simp: ipv4Match_def bind_eq_Some_conv split: if_splits)
  show "dottedQuad h g1 g2 g3 g4"
    using digitGroup_SomeD[OF a] digitGroup_SomeD[OF c] digitGroup_SomeD[OF e]
      digitGroup_SomeD[OF g] b d f
    by (simp add: dottedQuad_def literalDot_Some)
next
  assume "dottedQuad h g1 g2 g3 g4"
  then show "ipv4Match h = Some (g1, g2, g3, g4)"
    by (simp add: dottedQuad_def ipv4Match_def digitGroup_dot digitGroup_end)
qed

lemma endsWith_suffix: "endsWith s t \<longleftrightarrow> suffix t s"
  by (auto simp: endsWith_def suffix_def) (metis append_take_drop_id)

lemma startsWith_prefix: "startsWith s t \<longleftrightarrow> prefix t s"
  by (auto simp: startsWith_def prefix_def) (metis append_take_drop_id)

lemma ipv4_branch:
  "(case ipv4Match h of
      None \<Rightarrow> False
    | Some (g1, g2, g3, g4) \<Rightarrow>
        (let a = Number g1; b = Number g2
         in if a = 10 \<or> a = 127 \<or> a = 0 then True
            else if a = 192 \<and> b = 168 then True
            else if a = 172 \<and> b \<ge> 16 \<and> b \<le> 31 then True
            else if a = 169 \<and> b = 254 then True
            else False)) \<longleftrightarrow>
   (\<exists>g1 g2 g3 g4. dottedQuad h g1 g2 g3 g4 \<and> privateOctets (Number g1) (Number g2))"
proof (cases "ipv4Match h")
  case None
  then have "\<not> dottedQuad h g1 g2 g3 g4" for g1 g2 g3 g4
    using ipv4Match_dottedQuad[of h g1 g2 g3 g4] by simp
  with None show ?thesis by simp
next
  case (Some q)
  obtain a b c d where q: "q = (a, b, c, d)" by (cases q) auto
  have only: "dottedQuad h g1 g2 g3 g4 \<longleftrightarrow> g1 = a \<and> g2 = b \<and> g3 = c \<and> g4 = d"
    for g1 g2 g3 g4
    using ipv4Match_dottedQuad[of h g1 g2 g3 g4] Some q by auto
  show ?thesis
    by (simp add: Some q only privateOctets_def Let_def)
qed

text \<open>
  Claim C2. For every host name, \<open>isPrivateHostname\<close> returns true exactly when one of
  the rejection rules of the specification holds: the name is \<open>localhost\<close>, \<open>0.0.0.0\<close>
  or \<open>::1\<close>; or it ends in \<open>.local\<close> or \<open>.internal\<close>; or it is a dotted quad whose
  first octet is 10, 127 or 0, whose first two octets are 192.168 or 169.254, or whose
  first octet is 172 with the second in 16..31; or it contains a colon and its lower-case
  form starts with \<open>fe80:\<close>, \<open>fc\<close> or \<open>fd\<close>. For every other name it returns false.
\<close>

theorem isPrivateHostname_iff_specRejects: "isPrivateHostname h = specRejects h"
  unfolding isPrivateHostname_def specRejects_def ipv4_branch
  by (simp add: PRIVATE_HOSTNAMES_def endsWith_suffix startsWith_prefix includes'_def Let_def)

text \<open>
  Claim C9. The named hosts are matched case-sensitively, and only the branch for names
  with a colon lowers the case: \<open>LOCALHOST\<close> and a name ending in \<open>.LOCAL\<close> or
  \<open>.INTERNAL\<close> are not rejected, while their lower-case forms are, and an upper-case
  \<open>FE80:\<close>, \<open>FC\<close> or \<open>FD\<close> literal is rejected like its lower-case form.
\<close>

theorem isPrivateHostname_case_sensitive_names:
  "\<not> isPrivateHostname ''LOCALHOST'' \<and> \<not> isPrivateHostname ''printer.LOCAL'' \<and>
   \<not> isPrivateHostname ''db.INTERNAL'' \<and>
   isPrivateHostname ''localhost'' \<and> isPrivateHostname ''printer.local'' \<and>
   isPrivateHostname ''db.internal'' \<and>
   isPrivateHostname ''FE80::1'' \<and> isPrivateHostname ''FC00::1'' \<and>
   isPrivateHostname ''FD12::1'' \<and> isPrivateHostname ''fe80::1''"
  by code_simp

section \<open>Properties of the trace store\<close>

subsection \<open>Eviction\<close>

lemma enforceLimit_within: "length (order s) \<le> MAX_TRACES \<Longrightarrow> enforceLimit s = s"
  by (subst enforceLimit.simps) simp

lemma enforceLimit_shift:
  "length (order s) > MAX_TRACES \<Longrightarrow> order s = oldest # rest \<Longrightarrow>
   enforceLimit s =
     enforceLimit (if oldest \<noteq> [] then s\<lparr>order := rest, traces := (traces s)(oldest := None)\<rparr>
                   else s\<lparr>order := rest\<rparr>)"
  by (subst enforceLimit.simps) simp

text \<open>The order array keeps its last \<open>MAX_TRACES\<close> ids, whatever the ids are.\<close>

lemma enforceLimit_order:
  "order (enforceLimit s) = drop (length (order s) - MAX_TRACES) (order s)"
proof (induction s rule: enforceLimit.induct)
  case (1 s)
  show ?case
  proof (cases "length (order s) > MAX_TRACES")
    case False
    then show ?thesis by (simp add: enforceLimit_within)
  next
    case True
    then obtain oldest rest where o: "order s = oldest # rest" by (cases "order s") auto
    from True o have "Suc (length rest) - MAX_TRACES = Suc (length rest - MAX_TRACES)"
      by (simp add: Suc_diff_le)
    then show ?thesis
      using 1[OF True o] by (simp add: enforceLimit_shift[OF True o] o)
  qed
qed

text \<open>The map loses the shifted ids, provided none of them is the empty string.\<close>

lemma enforceLimit_traces:
  "[] \<notin> set (order s) \<Longrightarrow>
   traces (enforceLimit s) k =
     (if k \<in> set (take (length (order s) - MAX_TRACES) (order s)) then None else traces s k)"
proof (induction s rule: enforceLimit.induct)
  case (1 s)
  show ?case
  proof (cases "length (order s) > MAX_TRACES")
    case False
    then show ?thesis by (simp add: enforceLimit_within)
  next
    case True
    then obtain oldest rest where o: "order s = oldest # rest" by (cases "order s") auto
    have ne: "oldest \<noteq> []" and rest: "[] \<notin> set rest" using "1.prems" o by auto
    from True o have d: "Suc (length rest) - MAX_TRACES = Suc (length rest - MAX_TRACES)"
      by (simp add: Suc_diff_le)
    have "traces (enforceLimit (s\<lparr>order := rest, traces := (traces s)(oldest := None)\<rparr>)) k =
      (if k \<in> set (take (length rest - MAX_TRACES) rest) then None else ((traces s)(oldest := None)) k)"
      using "1.IH"[OF True o] ne rest by simp
    then show ?thesis
      using ne d by (simp add: enforceLimit_shift[OF True o] o)
  qed
qed

lemma startTrace_order:
  "order (snd (startTrace now params s)) =
     drop (Suc (length (order s)) - MAX_TRACES) (order s @ [p_id params])"
  by (simp add: startTrace_def Let_def enforceLimit_order)

lemma startTrace_traces:
  assumes "[] \<notin> set (order s)" "p_id params \<noteq> []"
  shows "traces (snd (startTrace now params s)) k =
     (if k \<in> set (take (Suc (length (order s)) - MAX_TRACES) (order s @ [p_id params])) then None
      else if k = p_id params then Some (newTrace now params) else traces s k)"
  using assms by (simp add: startTrace_def Let_def enforceLimit_traces)

lemma appendTraceEvent_order:
  "appendTraceEvent f g i e s = Inr s' \<Longrightarrow> order s' = order s"
  by (auto simp: appendTraceEvent_def split: option.splits sum.splits)

lemma exec_Append_order [simp]: "order (exec f g s (Append i e)) = order s"
  by (auto simp: appendTraceEvent_order split: sum.splits)

lemma finishTrace_order [simp]: "order (finishTrace now i s) = order s"
  by (simp add: finishTrace_def split: option.splits)

lemma appendTraceEvent_dom:
  "appendTraceEvent f g i e s = Inr s' \<Longrightarrow> dom (traces s') = dom (traces s)"
  by (auto simp: appendTraceEvent_def split: option.splits sum.splits if_splits)

lemma exec_Append_dom [simp]: "dom (traces (exec f g s (Append i e))) = dom (traces s)"
  by (auto simp: appendTraceEvent_dom split: sum.splits)

declare exec.simps(2) [simp del]

lemma finishTrace_dom [simp]: "dom (traces (finishTrace now i s)) = dom (traces s)"
  by (auto simp: finishTrace_def split: option.splits)

lemma set_drop_distinct:
  assumes "distinct xs"
  shows "set (drop n xs) = set xs - set (take n xs)"
proof -
  have "distinct (take n xs @ drop n xs)" using assms by simp
  then have disj: "set (take n xs) \<inter> set (drop n xs) = {}" by (simp only: distinct_append)
  have "set xs = set (take n xs) \<union> set (drop n xs)"
    by (metis append_take_drop_id set_append)
  with disj show ?thesis by blast
qed

lemma startTrace_storeInv:
  assumes inv: "storeInv s" and d: "distinct (order s)" and ne: "[] \<notin> set (order s)"
    and new: "p_id params \<notin> set (order s)" and id: "p_id params \<noteq> []"
  shows "storeInv (snd (startTrace now params s))"
proof -
  let ?xs = "order s @ [p_id params]"
  let ?n = "Suc (length (order s)) - MAX_TRACES"
  let ?s' = "snd (startTrace now params s)"
  have dist: "distinct ?xs" using d new by simp
  have o': "order ?s' = drop ?n ?xs" by (rule startTrace_order)
  have domeq: "dom (traces s) = set (order s)" using inv by (simp add: storeInv_def)
  have "k \<in> dom (traces ?s') \<longleftrightarrow> k \<in> set ?xs - set (take ?n ?xs)" for k
  proof (cases "k \<in> set (take ?n ?xs)")
    case True
    then show ?thesis by (simp add: dom_def startTrace_traces[OF ne id])
  next
    case False
    have "k \<in> dom (traces s) \<longleftrightarrow> k \<in> set (order s)" by (simp only: domeq)
    then have "traces s k \<noteq> None \<longleftrightarrow> k \<in> set (order s)" by (simp add: dom_def)
    with False show ?thesis
      by (cases "k = p_id params") (simp_all add: dom_def startTrace_traces[OF ne id])
  qed
  then have "dom (traces ?s') = set ?xs - set (take ?n ?xs)" by blast
  then have a: "dom (traces ?s') = set (order ?s')"
    by (simp only: o' set_drop_distinct[OF dist])
  have "length (order s) \<le> MAX_TRACES" using inv by (simp add: storeInv_def)
  then have b: "length (order ?s') \<le> MAX_TRACES" by (simp add: o')
  from a b show ?thesis by (simp only: storeInv_def simp_thms)
qed

lemma drop_window:
  assumes "length xs \<le> N"
  shows "drop (length (drop (Suc (length xs) - N) (xs @ [x]) @ zs) - N)
           (drop (Suc (length xs) - N) (xs @ [x]) @ zs) =
         drop (length (xs @ x # zs) - N) (xs @ x # zs)"
proof (cases "length xs < N")
  case True
  then show ?thesis by simp
next
  case False
  with assms have len: "N = length xs" by simp
  show ?thesis
  proof (cases xs)
    case Nil
    then show ?thesis using len by simp
  next
    case (Cons y ys)
    then show ?thesis using len by (simp add: Suc_diff_le)
  qed
qed

lemma run_Nil [simp]: "run f g s [] = s"
  by (simp add: run_def)

lemma run_Cons [simp]: "run f g s (c # cs) = run f g (exec f g s c) cs"
  by (simp add: run_def)

lemma startedIds_Nil [simp]: "startedIds [] = []"
  by (simp add: startedIds_def)

lemma startedIds_Cons [simp]: "startedIds (c # cs) = startedId c @ startedIds cs"
  by (simp add: startedIds_def)

text \<open>
  When the started ids are pairwise distinct, new to the store and none of them is the
  empty string, every sequence of calls keeps the invariant, and the order array ends as
  the last \<open>MAX_TRACES\<close> of the ids started so far.
\<close>

lemma run_storeInv_order:
  assumes "storeInv s" and "distinct (order s @ startedIds cs)"
    and "[] \<notin> set (order s @ startedIds cs)"
  shows "storeInv (run f g s cs) \<and>
         order (run f g s cs) =
           drop (length (order s @ startedIds cs) - MAX_TRACES) (order s @ startedIds cs)"
  using assms
proof (induction cs arbitrary: s)
  case Nil
  then show ?case by (simp add: storeInv_def)
next
  case (Cons c cs)
  show ?case
  proof (cases c)
    case (Start now params)
    let ?s' = "snd (startTrace now params s)"
    let ?n = "Suc (length (order s)) - MAX_TRACES"
    have o': "order ?s' = drop ?n (order s @ [p_id params])"
      by (rule startTrace_order)
    have inv': "storeInv ?s'"
      using Cons.prems Start by (intro startTrace_storeInv) auto
    have sub: "set (order ?s') \<subseteq> set (order s @ [p_id params])"
      unfolding o' by (rule set_drop_subset)
    have "distinct (order s @ [p_id params])" using Cons.prems Start by simp
    then have d0: "distinct (order ?s')" unfolding o' by (rule distinct_drop)
    have dist': "distinct (order ?s' @ startedIds cs)"
      using Cons.prems(2) Start sub d0 by auto
    have ne': "[] \<notin> set (order ?s' @ startedIds cs)"
      using Cons.prems(3) Start sub by auto
    have len: "length (order s) \<le> MAX_TRACES" using Cons.prems(1) by (simp add: storeInv_def)
    from Cons.IH[OF inv' dist' ne'] show ?thesis
      using drop_window[OF len, of "p_id params" "startedIds cs"]
      by (simp add: Start o')
  next
    case (Append i e)
    have "storeInv (exec f g s c)" using Cons.prems(1) Append by (simp add: storeInv_def)
    from Cons.IH[OF this] Cons.prems Append show ?thesis by simp
  next
    case (Finish now i)
    have "storeInv (exec f g s c)" using Cons.prems(1) Finish by (simp add: storeInv_def)
    from Cons.IH[OF this] Cons.prems Finish show ?thesis by simp
  next
    case (Get i)
    from Cons.IH[of s] Cons.prems Get show ?thesis by simp
  qed
qed

text \<open>
  So with non-empty distinct ids, started from the empty store, \<open>getTrace\<close> finds exactly
  the last \<open>MAX_TRACES\<close> started ids.
\<close>

lemma getTrace_after_run_nonempty_ids:
  assumes "distinct (startedIds cs)" and "[] \<notin> set (startedIds cs)"
  shows "getTrace i (run f g emptyStore cs) \<noteq> None \<longleftrightarrow>
         i \<in> set (drop (length (startedIds cs) - MAX_TRACES) (startedIds cs))"
proof -
  have "storeInv emptyStore" by (simp add: storeInv_def emptyStore_def)
  from run_storeInv_order[OF this, of cs f g] assms
  have "dom (traces (run f g emptyStore cs)) =
        set (drop (length (startedIds cs) - MAX_TRACES) (startedIds cs))"
    by (simp add: emptyStore_def storeInv_def)
  then show ?thesis by (auto simp: getTrace_def dom_def)
qed

text \<open>In every case the map holds none but the ids it held and the started ones.\<close>

lemma enforceLimit_dom_subset: "dom (traces (enforceLimit s)) \<subseteq> dom (traces s)"
proof (induction s rule: enforceLimit.induct)
  case (1 s)
  show ?case
  proof (cases "length (order s) > MAX_TRACES")
    case False
    then show ?thesis by (simp add: enforceLimit_within)
  next
    case True
    then obtain oldest rest where o: "order s = oldest # rest" by (cases "order s") auto
    show ?thesis
      using 1[OF True o] by (auto simp: enforceLimit_shift[OF True o] split: if_splits)
  qed
qed

lemma run_dom_subset: "dom (traces (run f g s cs)) \<subseteq> dom (traces s) \<union> set (startedIds cs)"
proof (induction cs arbitrary: s)
  case Nil
  show ?case by simp
next
  case (Cons c cs)
  have "dom (traces (exec f g s c)) \<subseteq> dom (traces s) \<union> set (startedId c)"
  proof (cases c)
    case (Start now params)
    then show ?thesis
      using enforceLimit_dom_subset[of "s\<lparr>traces := (traces s)(p_id params \<mapsto> newTrace now params),
             order := order s @ [p_id params]\<rparr>"]
      by (auto simp: startTrace_def Let_def)
  qed simp_all
  with Cons.IH[of "exec f g s c"] show ?case by auto
qed

subsection \<open>The empty id\<close>

lemma startedIds_startsUpto: "startedIds (startsUpto n) = map unaryId [0..<n]"
  by (induction n) (simp_all add: startsUpto_def startedIds_def sampleParams_def)

lemma distinct_unaryIds: "distinct (map unaryId [0..<n])"
  by (auto simp: distinct_map inj_on_def unaryId_def dest: arg_cong[where f = length])

text \<open>
  Claim C4, at the input where the code departs from it. Twenty-six traces are started
  with pairwise distinct ids, the first of them the empty string. The oldest id is the
  one in excess, so \<open>getTrace\<close> should return \<open>null\<close> for it; it returns the trace:
  \<open>enforceLimit\<close> shifts the empty id out of the order array and then skips the
  deletion, because the empty string is falsy.
\<close>

theorem getTrace_empty_id_survives_eviction:
  "startedIds (startsUpto 26) = map unaryId [0..<26] \<and>
   distinct (startedIds (startsUpto 26)) \<and>
   unaryId 0 = [] \<and>
   getTrace [] (run sampleStringify sampleString emptyStore (startsUpto 26)) =
     Some (newTrace 0 (sampleParams []))"
proof (intro conjI)
  show "startedIds (startsUpto 26) = map unaryId [0..<26]"
    by (rule startedIds_startsUpto)
  show "distinct (startedIds (startsUpto 26))"
    by (simp only: startedIds_startsUpto distinct_unaryIds)
  show "unaryId 0 = []"
    by (simp add: unaryId_def)
  show "getTrace [] (run sampleStringify sampleString emptyStore (startsUpto 26)) =
     Some (newTrace 0 (sampleParams []))"
    by code_simp
qed

text \<open>
  Claim C10, at the same input. After the twenty-sixth start the map holds all twenty-six
  ids, one more than the limit, and it holds the empty id, which the order array has
  lost: the invariant is broken.
\<close>

theorem storeInv_broken_by_empty_id:
  "distinct (startedIds (startsUpto 26)) \<and>
   card (dom (traces (run sampleStringify sampleString emptyStore (startsUpto 26)))) = 26 \<and>
   [] \<in> dom (traces (run sampleStringify sampleString emptyStore (startsUpto 26))) \<and>
   [] \<notin> set (order (run sampleStringify sampleString emptyStore (startsUpto 26))) \<and>
   \<not> storeInv (run sampleStringify sampleString emptyStore (startsUpto 26))"
proof -
  let ?s = "run sampleStringify sampleString emptyStore (startsUpto 26)"
  have d: "distinct (startedIds (startsUpto 26))"
    by (simp only: startedIds_startsUpto distinct_unaryIds)
  have "list_all (\<lambda>k. getTrace (unaryId k) ?s \<noteq> None) [0..<26]"
    by code_simp
  then have sup: "set (map unaryId [0..<26]) \<subseteq> dom (traces ?s)"
    by (auto simp: list_all_iff getTrace_def dom_def simp del: upt_Suc)
  have sub: "dom (traces ?s) \<subseteq> set (map unaryId [0..<26])"
    using run_dom_subset[of sampleStringify sampleString emptyStore "startsUpto 26"]
    by (simp only: startedIds_startsUpto) (simp add: emptyStore_def)
  from sub sup have eq: "dom (traces ?s) = set (map unaryId [0..<26])" by (rule equalityI)
  have c: "card (dom (traces ?s)) = 26"
    unfolding eq using distinct_card[OF distinct_unaryIds[of 26]] by simp
  have "getTrace [] ?s \<noteq> None" by code_simp
  then have m: "[] \<in> dom (traces ?s)" by (simp add: getTrace_def dom_def)
  have o: "[] \<notin> set (order ?s)" by code_simp
  from m o have "\<not> storeInv ?s" by (auto simp: storeInv_def)
  with d c m o show ?thesis by blast
qed
subsection \<open>Appending events\<close>

lemma appendTraceEvent_unknown:
  "getTrace traceId s = None \<Longrightarrow> appendTraceEvent stringify toStr traceId event s = Inr s"
  by (simp add: appendTraceEvent_def getTrace_def)

lemma appendTraceEvent_pushes:
  "getTrace traceId s = Some trace \<Longrightarrow> storedEvent stringify toStr event = Inr pushed \<Longrightarrow>
   \<exists>s'. appendTraceEvent stringify toStr traceId event s = Inr s' \<and>
        getTrace traceId s' = Some (trace\<lparr>events := events trace @ [pushed]\<rparr>)"
  by (simp add: appendTraceEvent_def getTrace_def)

lemma appendTraceEvent_throws:
  "getTrace traceId s = Some trace \<Longrightarrow> storedEvent stringify toStr event = Inl e \<Longrightarrow>
   appendTraceEvent stringify toStr traceId event s = Inl e"
  by (simp add: appendTraceEvent_def getTrace_def)

text \<open>
  The payload that is stored. When the value serializes to more than 4000 characters,
  it is the string of the first 4000 characters followed by the truncation marker, which
  is 4000 plus the marker long and ends in the marker; when the value serializes to at
  most 4000 characters, it is the value; when serializing throws and \<open>String\<close> returns,
  it is the string \<open>String\<close> returns; and when \<open>String\<close> throws too, nothing is stored:
  the exception leaves \<open>trimIfNeeded\<close>.
\<close>

lemma trimIfNeeded_long:
  assumes "stringify v = Some serialized" and "4000 < length serialized"
  shows "trimIfNeeded stringify toStr v = Inr (JStr (take 4000 serialized @ truncationMarker))"
    and "length (take 4000 serialized @ truncationMarker) = 4000 + length truncationMarker"
    and "suffix truncationMarker (take 4000 serialized @ truncationMarker)"
  using assms by (simp_all add: trimIfNeeded_def MAX_SERIALIZED_LENGTH_def suffix_def)

lemma trimIfNeeded_short:
  "stringify v = Some serialized \<Longrightarrow> length serialized \<le> 4000 \<Longrightarrow>
   trimIfNeeded stringify toStr v = Inr v"
  by (simp add: trimIfNeeded_def MAX_SERIALIZED_LENGTH_def)

lemma trimIfNeeded_fallback:
  "stringify v = None \<Longrightarrow> toStr v = Inr str \<Longrightarrow> trimIfNeeded stringify toStr v = Inr (JStr str)"
  by (simp add: trimIfNeeded_def)

lemma trimIfNeeded_fallback_throws:
  "stringify v = None \<Longrightarrow> toStr v = Inl e \<Longrightarrow> trimIfNeeded stringify toStr v = Inl e"
  by (simp add: trimIfNeeded_def)

text \<open>
  So a \<open>tool-result\<close> (and in the same way a \<open>tool-call\<close>) appended to a trace of the
  store is pushed with its payload capped whenever \<open>trimIfNeeded\<close> returns, and a
  \<open>tool-error\<close> and a \<open>tool-output-denied\<close> event are pushed as they are.
\<close>

lemma appendTraceEvent_tool_result:
  assumes "getTrace traceId s = Some trace" and "trimIfNeeded stringify toStr v = Inr out"
  shows "\<exists>s'. appendTraceEvent stringify toStr traceId (ToolResult c n v t) s = Inr s' \<and>
           getTrace traceId s' = Some (trace\<lparr>events := events trace @ [ToolResult c n out t]\<rparr>)"
  using assms by (intro appendTraceEvent_pushes) simp_all

lemma appendTraceEvent_tool_call:
  assumes "getTrace traceId s = Some trace" and "trimIfNeeded stringify toStr v = Inr inp"
  shows "\<exists>s'. appendTraceEvent stringify toStr traceId (ToolCall c n v t) s = Inr s' \<and>
           getTrace traceId s' = Some (trace\<lparr>events := events trace @ [ToolCall c n inp t]\<rparr>)"
  using assms by (intro appendTraceEvent_pushes) simp_all

lemma appendTraceEvent_verbatim:
  assumes "getTrace traceId s = Some trace"
  shows "\<exists>s'. appendTraceEvent stringify toStr traceId (ToolError co no e t) s = Inr s' \<and>
           getTrace traceId s' = Some (trace\<lparr>events := events trace @ [ToolError co no e t]\<rparr>)"
    and "\<exists>s'. appendTraceEvent stringify toStr traceId (ToolOutputDenied c n t) s = Inr s' \<and>
           getTrace traceId s' = Some (trace\<lparr>events := events trace @ [ToolOutputDenied c n t]\<rparr>)"
  using assms by (simp_all add: appendTraceEvent_pushes)

lemma startTrace_first:
  "getTrace ''t1'' (snd (startTrace 7 (sampleParams ''t1'') emptyStore)) = Some (newTrace 7 (sampleParams ''t1''))"
  by (simp add: getTrace_def startTrace_def Let_def emptyStore_def sampleParams_def enforceLimit.simps MAX_TRACES_def)

text \<open>
  Claim C5, at the input where the code departs from it. A \<open>tool-result\<close> event is
  appended to a trace of the store, and its output is an object without prototype that
  holds a bigint. Serializing the output throws, so the claim has its \<open>String(value)\<close>
  form stored. But \<open>String\<close> throws on this value too, and the \<open>catch\<close> block of
  \<open>trimIfNeeded\<close> calls it with no handler: \<open>appendTraceEvent\<close> throws and the trace has
  no event.
\<close>

theorem appendTraceEvent_throws_when_String_throws:
  "sampleStringify (JOther 0) = None \<and>
   sampleString (JOther 0) =
     Inl (Platform ''TypeError: Cannot convert object to primitive value'') \<and>
   getTrace ''t1'' (snd (startTrace 7 (sampleParams ''t1'') emptyStore)) =
     Some (newTrace 7 (sampleParams ''t1'')) \<and>
   appendTraceEvent sampleStringify sampleString ''t1''
       (ToolResult ''c1'' ''runInSandbox'' (JOther 0) 8)
       (snd (startTrace 7 (sampleParams ''t1'') emptyStore)) =
     Inl (Platform ''TypeError: Cannot convert object to primitive value'') \<and>
   map_option events
     (getTrace ''t1'' (run sampleStringify sampleString emptyStore
        [Start 7 (sampleParams ''t1''),
         Append ''t1'' (ToolResult ''c1'' ''runInSandbox'' (JOther 0) 8)])) = Some []"
proof -
  let ?s = "snd (startTrace 7 (sampleParams ''t1'') emptyStore)"
  have thrown: "appendTraceEvent sampleStringify sampleString ''t1''
       (ToolResult ''c1'' ''runInSandbox'' (JOther 0) 8) ?s =
     Inl (Platform ''TypeError: Cannot convert object to primitive value'')"
    by (rule appendTraceEvent_throws[OF startTrace_first]) (simp add: trimIfNeeded_def)
  have "map_option events
     (getTrace ''t1'' (run sampleStringify sampleString emptyStore
        [Start 7 (sampleParams ''t1''),
         Append ''t1'' (ToolResult ''c1'' ''runInSandbox'' (JOther 0) 8)])) = Some []"
    using startTrace_first
    by (simp add: run_def exec.simps(2) thrown newTrace_def)
  with thrown startTrace_first show ?thesis by simp
qed

text \<open>
  Where \<open>String\<close> returns, the same call stores the capped payload: an output of 5000
  characters is stored as a string of 4015 characters that ends in the marker.
\<close>

lemma appendTraceEvent_long_output:
  "\<exists>s' str. appendTraceEvent sampleStringify sampleString ''t1''
       (ToolResult ''c1'' ''runInSandbox'' (JStr (replicate 5000 CHR ''x'')) 8)
       (snd (startTrace 7 (sampleParams ''t1'') emptyStore)) = Inr s' \<and>
     getTrace ''t1'' s' =
       Some ((newTrace 7 (sampleParams ''t1''))\<lparr>events := [ToolResult ''c1'' ''runInSandbox'' (JStr str) 8]\<rparr>) \<and>
     length str = 4015 \<and> suffix ''... [truncated]'' str"
proof -
  let ?ser = "''\"'' @ replicate 5000 CHR ''x'' @ ''\"''"
  have ser: "sampleStringify (JStr (replicate 5000 CHR ''x'')) = Some ?ser" by simp
  have long: "4000 < length ?ser" by simp
  have trimmed: "trimIfNeeded sampleStringify sampleString (JStr (replicate 5000 CHR ''x'')) =
      Inr (JStr (take 4000 ?ser @ truncationMarker))"
    using ser long
    by (rule trimIfNeeded_long(1)[where stringify = sampleStringify
          and v = "JStr (replicate 5000 CHR ''x'')"])
  from appendTraceEvent_tool_result[OF startTrace_first trimmed, of "''c1''" "''runInSandbox''" 8]
  obtain s' where "appendTraceEvent sampleStringify sampleString ''t1''
       (ToolResult ''c1'' ''runInSandbox'' (JStr (replicate 5000 CHR ''x'')) 8)
       (snd (startTrace 7 (sampleParams ''t1'') emptyStore)) = Inr s'"
    and "getTrace ''t1'' s' =
       Some ((newTrace 7 (sampleParams ''t1''))\<lparr>events := events (newTrace 7 (sampleParams ''t1'')) @
          [ToolResult ''c1'' ''runInSandbox'' (JStr (take 4000 ?ser @ truncationMarker)) 8]\<rparr>)"
    by blast
  then show ?thesis
    by (intro exI[of _ s'] exI[of _ "take 4000 ?ser @ truncationMarker"])
       (simp add: newTrace_def truncationMarker_def suffix_def)
qed

subsection \<open>Finishing a trace\<close>

lemma finishTrace_unknown: "getTrace traceId s = None \<Longrightarrow> finishTrace now traceId s = s"
  by (simp add: finishTrace_def getTrace_def)




section \<open>Properties of the tools\<close>

subsection \<open>runInSandbox\<close>

text \<open>
  Claim C7. Given the results of the sandbox commands, \<open>runInSandbox\<close> returns a string
  in every case. When no package is requested, or the install of the requested packages
  exits with code 0, the result is decided by the run of the code: on exit code 0 with
  a non-empty trimmed stdout, the trimmed stdout; on a non-zero exit code, the text
  \<open>Execution error: \<close> followed by the trimmed stderr or, if that is empty, the trimmed
  stdout or, if that is empty too, \<open>unknown error\<close>; on exit code 0 with an empty
  trimmed stdout, the trimmed stderr or, if that is empty, \<open>No output produced.\<close>. When
  the install of requested packages exits with a non-zero code, the result is the string
  \<open>Package install failed: \<close> followed by the trimmed stderr of the install or
  \<open>unknown error\<close>; nothing is thrown.
\<close>

theorem runInSandbox_execute_results:
  "((packages = None \<or> packages = Some [] \<or>
     (\<exists>ps initialized install. packages = Some ps \<and>
        runCommand ''npm'' [''init'', ''-y''] = Inr initialized \<and>
        runCommand ''npm'' ([''install'', ''--no-fund'', ''--no-audit'', ''--silent''] @ ps) =
          Inr install \<and>
        exitCode install = 0)) \<and>
    runCommand ''node'' [''-e'', code] = Inr result
    \<longrightarrow>
    runInSandbox_execute runCommand code packages =
      Inr (if exitCode result \<noteq> 0
           then ''Execution error: '' @
                (if trim (stderr result) \<noteq> [] then trim (stderr result)
                 else if trim (stdout result) \<noteq> [] then trim (stdout result)
                 else ''unknown error'')
           else if trim (stdout result) \<noteq> [] then trim (stdout result)
           else if trim (stderr result) \<noteq> [] then trim (stderr result)
           else ''No output produced.'')) \<and>
   (packages = Some ps \<and> ps \<noteq> [] \<and>
    runCommand ''npm'' [''init'', ''-y''] = Inr initialized \<and>
    runCommand ''npm'' ([''install'', ''--no-fund'', ''--no-audit'', ''--silent''] @ ps) =
      Inr install \<and>
    exitCode install \<noteq> 0
    \<longrightarrow>
    runInSandbox_execute runCommand code packages =
      Inr (''Package install failed: '' @
           (if trim (stderr install) \<noteq> [] then trim (stderr install) else ''unknown error'')))"
proof (intro conjI impI)
  assume a: "(packages = None \<or> packages = Some [] \<or>
     (\<exists>ps initialized install. packages = Some ps \<and>
        runCommand ''npm'' [''init'', ''-y''] = Inr initialized \<and>
        runCommand ''npm'' ([''install'', ''--no-fund'', ''--no-audit'', ''--silent''] @ ps) =
          Inr install \<and>
        exitCode install = 0)) \<and>
    runCommand ''node'' [''-e'', code] = Inr result"
  then have r: "runCommand ''node'' [''-e'', code] = Inr result" by simp
  from a consider "packages = None" | "packages = Some []"
    | ps initialized install where "packages = Some ps"
        "runCommand ''npm'' [''init'', ''-y''] = Inr initialized"
        "runCommand ''npm'' ([''install'', ''--no-fund'', ''--no-audit'', ''--silent''] @ ps) =
          Inr install" "exitCode install = 0"
    by blast
  then show "runInSandbox_execute runCommand code packages =
      Inr (if exitCode result \<noteq> 0
           then ''Execution error: '' @
                (if trim (stderr result) \<noteq> [] then trim (stderr result)
                 else if trim (stdout result) \<noteq> [] then trim (stdout result)
                 else ''unknown error'')
           else if trim (stdout result) \<noteq> [] then trim (stdout result)
           else if trim (stderr result) \<noteq> [] then trim (stderr result)
           else ''No output produced.'')"
  proof cases
    case 1
    then show ?thesis by (simp add: runInSandbox_execute_def r orElse_def Let_def)
  next
    case 2
    then show ?thesis by (simp add: runInSandbox_execute_def r orElse_def Let_def)
  next
    case 3
    then show ?thesis by (simp add: runInSandbox_execute_def r orElse_def Let_def)
  qed
next
  assume "packages = Some ps \<and> ps \<noteq> [] \<and>
    runCommand ''npm'' [''init'', ''-y''] = Inr initialized \<and>
    runCommand ''npm'' ([''install'', ''--no-fund'', ''--no-audit'', ''--silent''] @ ps) =
      Inr install \<and>
    exitCode install \<noteq> 0"
  then show "runInSandbox_execute runCommand code packages =
      Inr (''Package install failed: '' @
           (if trim (stderr install) \<noteq> [] then trim (stderr install) else ''unknown error''))"
    by (simp add: runInSandbox_execute_def orElse_def Let_def)
qed

text \<open>
  The theorem at the sample sandboxes: a successful run, a run with a non-zero exit code
  and only stdout, a run without output, and a failing install.
\<close>

theorem runInSandbox_execute_results_witness:
  "runInSandbox_execute sampleRunCommand ''console.log(44 * 44)'' None = Inr ''1936'' \<and>
   runInSandbox_execute failingRunCommand ''process.exit(1)'' (Some []) =
     Inr ''Execution error: partial'' \<and>
   runInSandbox_execute silentRunCommand ''1'' None = Inr ''No output produced.'' \<and>
   runInSandbox_execute sampleRunCommand ''console.log(44 * 44)'' (Some [''left-pad'']) =
     Inr ''Package install failed: npm error 404 Not Found''"
proof -
  have a: "runInSandbox_execute sampleRunCommand ''console.log(44 * 44)'' None = Inr ''1936''"
    using runInSandbox_execute_results[of None sampleRunCommand "''console.log(44 * 44)''"
        "\<lparr>exitCode = 0, stdout = ''1936'' @ [CHR 0x0A], stderr = []\<rparr>"]
    by (simp add: sampleRunCommand_def trim_def isWhiteSpace_def)
  have b: "runInSandbox_execute failingRunCommand ''process.exit(1)'' (Some []) =
     Inr ''Execution error: partial''"
    using runInSandbox_execute_results[of "Some []" failingRunCommand "''process.exit(1)''"
        "\<lparr>exitCode = 1, stdout = '' partial '', stderr = [CHR 0x0A]\<rparr>"]
    by (simp add: failingRunCommand_def trim_def isWhiteSpace_def)
  have c: "runInSandbox_execute silentRunCommand ''1'' None = Inr ''No output produced.''"
    using runInSandbox_execute_results[of None silentRunCommand "''1''"
        "\<lparr>exitCode = 0, stdout = '' '', stderr = [CHR 0x0A]\<rparr>"]
    by (simp add: silentRunCommand_def trim_def isWhiteSpace_def)
  have d: "runInSandbox_execute sampleRunCommand ''console.log(44 * 44)'' (Some [''left-pad'']) =
     Inr ''Package install failed: npm error 404 Not Found''"
    using runInSandbox_execute_results[of "Some [''left-pad'']" sampleRunCommand _ _
        "[''left-pad'']" "\<lparr>exitCode = 0, stdout = ''{}'', stderr = []\<rparr>"
        "\<lparr>exitCode = 1, stdout = [], stderr = '' npm error 404 Not Found '' @ [CHR 0x0A]\<rparr>"]
    by (simp add: sampleRunCommand_def trim_def isWhiteSpace_def)
  from a b c d show ?thesis by simp
qed
subsection \<open>fetchJson\<close>







section \<open>Properties of the request handler\<close>

subsection \<open>Validation and configuration\<close>

text \<open>The schema accepts exactly the bodies the specification describes.\<close>

lemma safeParse_validBody:
  "requestSchema_safeParse (case body of None \<Rightarrow> JNull | Some b \<Rightarrow> b) \<noteq> None \<longleftrightarrow> validBody body"
  by (auto simp: requestSchema_safeParse_def validBody_def Let_def
      split: option.splits jsval.splits)

text \<open>
  Claim C8. A request whose body is not a JSON object containing a prompt that, trimmed,
  has 1 to 2000 characters gets status 400 with an error message, and the handler has
  made no call at all by then: no sandbox is created and no trace is started. A request
  with a valid prompt and no gateway credential gets status 500 with an error message,
  again before any call.
\<close>

theorem POST_rejects_before_allocation:
  "(\<not> validBody (w_body w) \<longrightarrow>
      POST w = (JsonResponse 400 ''Invalid request. Expected { prompt: string }.'', [])) \<and>
   (validBody (w_body w) \<and> credentialAbsent (w_apiKey w) \<longrightarrow>
      POST w = (JsonResponse 500 ''Missing AI_GATEWAY_API_KEY. Set it in your env first.'', []))"
proof (intro conjI impI)
  assume "\<not> validBody (w_body w)"
  then have "requestSchema_safeParse (case w_body w of None \<Rightarrow> JNull | Some b \<Rightarrow> b) = None"
    using safeParse_validBody[of "w_body w"] by simp
  then show "POST w = (JsonResponse 400 ''Invalid request. Expected { prompt: string }.'', [])"
    by (simp add: POST_def)
next
  assume a: "validBody (w_body w) \<and> credentialAbsent (w_apiKey w)"
  then obtain t where "requestSchema_safeParse (case w_body w of None \<Rightarrow> JNull | Some b \<Rightarrow> b) = Some t"
    using safeParse_validBody[of "w_body w"] by auto
  with a show "POST w = (JsonResponse 500 ''Missing AI_GATEWAY_API_KEY. Set it in your env first.'', [])"
    by (simp add: POST_def)
qed

lemma blank_prompt_invalid: "\<not> validBody (Some (JObj [(''prompt'', JStr ''   '')]))"
  by (simp add: validBody_def trim_def isWhiteSpace_def)

lemma sample_prompt_valid: "validBody (w_body sampleWorld)"
  by (simp add: validBody_def sampleWorld_def trim_def isWhiteSpace_def)

text \<open>
  The theorem at a request whose prompt is blank, at a request without a body, and at
  the sample request with the credential unset and with the credential empty.
\<close>

theorem POST_rejects_before_allocation_witness:
  "POST (sampleWorld\<lparr>w_body := Some (JObj [(''prompt'', JStr ''   '')])\<rparr>) =
     (JsonResponse 400 ''Invalid request. Expected { prompt: string }.'', []) \<and>
   POST (sampleWorld\<lparr>w_apiKey := None\<rparr>) =
     (JsonResponse 500 ''Missing AI_GATEWAY_API_KEY. Set it in your env first.'', []) \<and>
   POST (sampleWorld\<lparr>w_apiKey := Some []\<rparr>) =
     (JsonResponse 500 ''Missing AI_GATEWAY_API_KEY. Set it in your env first.'', [])"
  using POST_rejects_before_allocation[of "sampleWorld\<lparr>w_body := Some (JObj [(''prompt'', JStr ''   '')])\<rparr>"]
    POST_rejects_before_allocation[of "sampleWorld\<lparr>w_apiKey := None\<rparr>"]
    POST_rejects_before_allocation[of "sampleWorld\<lparr>w_apiKey := Some []\<rparr>"]
    blank_prompt_invalid sample_prompt_valid
  by (simp add: credentialAbsent_def)

subsection \<open>Teardown of the sandbox\<close>

lemma stopSandbox_stops: "SandboxStop \<in> set (stopSandbox stopThrows)"
  by (simp add: stopSandbox_def)

lemma leave_stops: "cancelled \<or> SandboxStop \<in> set (leave w cancelled enqueued)"
  by (simp add: leave_def finallyBlock_def stopSandbox_stops)

text \<open>
  The streaming part stops the sandbox, unless the consumer had cancelled before (and
  then \<open>cancel\<close> has stopped it).
\<close>

lemma start_stops:
  "cancelled \<or> SandboxStop \<in> set (start w i cancelled enqueued ps ending)"
proof (induction ps arbitrary: i cancelled enqueued)
  case Nil
  show ?case
  proof (cases "cancelled \<or> w_cancelAt w = Some i")
    case True
    then show ?thesis
      by (cases cancelled) (simp_all add: Let_def cancel_def stopSandbox_stops)
  next
    case False
    then show ?thesis
      using leave_stops[of False w enqueued] by (simp add: Let_def)
  qed
next
  case (Cons p ps)
  show ?case
  proof (cases "cancelled \<or> w_cancelAt w = Some i")
    case True
    then show ?thesis
      by (cases cancelled) (simp_all add: Let_def cancel_def stopSandbox_stops)
  next
    case False
    have rest: "SandboxStop \<in> set (start w (Suc i) False q ps ending)" for q
      using Cons.IH[where i = "Suc i" and cancelled = False and enqueued = q] by simp
    have left: "SandboxStop \<in> set (leave w False enqueued)"
      using leave_stops[of False w enqueued] by simp
    from False rest left show ?thesis
      by (cases p) (simp_all add: Let_def split: option.splits)
  qed
qed

text \<open>
  Claim C1. In every execution of \<open>POST\<close> in which \<open>Sandbox.create\<close> returned a
  sandbox, \<open>stop()\<close> is called after the creation, however the request ends: the stream
  is exhausted, the iteration throws after streaming began, \<open>agent.stream\<close> rejects
  before streaming began, or the consumer cancels the response stream.
\<close>

theorem POST_stops_created_sandbox:
  assumes "validBody (w_body w)" and "\<not> credentialAbsent (w_apiKey w)"
    and "w_create w = Created sbId"
  shows "\<exists>rest. snd (POST w) = SandboxCreate # rest \<and> SandboxStop \<in> set rest"
proof -
  obtain t where t: "requestSchema_safeParse (case w_body w of None \<Rightarrow> JNull | Some b \<Rightarrow> b) = Some t"
    using safeParse_validBody[of "w_body w"] assms(1) by auto
  show ?thesis
  proof (cases "w_stream w")
    case StreamRejects
    then show ?thesis
      using t assms(2,3) by (simp add: POST_def Let_def agentFailed_def stopSandbox_stops)
  next
    case (Streaming ps ending)
    then show ?thesis
      using t assms(2,3)
        start_stops[of False w 0 False ps ending]
      by (simp add: POST_def Let_def)
  qed
qed

lemma sample_credential: "\<not> credentialAbsent (w_apiKey sampleWorld)"
  by (simp add: credentialAbsent_def sampleWorld_def)

text \<open>
  The theorem at the sample request on each exit path: the stream runs to its end; the
  iteration throws after the first part; \<open>agent.stream\<close> rejects; the consumer cancels
  while the second part is awaited.
\<close>

theorem POST_stops_created_sandbox_witness:
  "SandboxStop \<in> set (snd (POST sampleWorld)) \<and>
   SandboxStop \<in> set (snd (POST (sampleWorld\<lparr>w_stream :=
       Streaming [ToolCallPart ''c1'' ''runInSandbox'' (JStr ''44*44'')] (IterationThrows ''boom'')\<rparr>))) \<and>
   SandboxStop \<in> set (snd (POST (sampleWorld\<lparr>w_stream := StreamRejects\<rparr>))) \<and>
   SandboxStop \<in> set (snd (POST (sampleWorld\<lparr>w_cancelAt := Some 1\<rparr>)))"
proof -
  have c: "w_create sampleWorld = Created ''sbx_1''" by (simp add: sampleWorld_def)
  have a1: "SandboxStop \<in> set (snd (POST sampleWorld))"
    using POST_stops_created_sandbox[OF sample_prompt_valid sample_credential c] by auto
  have a2: "SandboxStop \<in> set (snd (POST (sampleWorld\<lparr>w_stream :=
       Streaming [ToolCallPart ''c1'' ''runInSandbox'' (JStr ''44*44'')] (IterationThrows ''boom'')\<rparr>)))"
    using POST_stops_created_sandbox[of "sampleWorld\<lparr>w_stream :=
       Streaming [ToolCallPart ''c1'' ''runInSandbox'' (JStr ''44*44'')] (IterationThrows ''boom'')\<rparr>" "''sbx_1''"]
      sample_prompt_valid sample_credential c by auto
  have a3: "SandboxStop \<in> set (snd (POST (sampleWorld\<lparr>w_stream := StreamRejects\<rparr>)))"
    using POST_stops_created_sandbox[of "sampleWorld\<lparr>w_stream := StreamRejects\<rparr>" "''sbx_1''"]
      sample_prompt_valid sample_credential c by auto
  have a4: "SandboxStop \<in> set (snd (POST (sampleWorld\<lparr>w_cancelAt := Some 1\<rparr>)))"
    using POST_stops_created_sandbox[of "sampleWorld\<lparr>w_cancelAt := Some 1\<rparr>" "''sbx_1''"]
      sample_prompt_valid sample_credential c by auto
  from a1 a2 a3 a4 show ?thesis by simp
qed

text \<open>
  The calls of the sample request; of the same request cancelled after its first part;
  of the request cancelled late; and of the request whose second \<open>appendTraceEvent\<close>
  throws.
\<close>

lemma POST_sampleWorld:
  "POST sampleWorld =
     (TextStreamResponse ''trace-1'',
      [SandboxCreate,
       StartTrace \<lparr>p_id = ''trace-1'', p_prompt = ''What is 44 x 44?'',
                   p_model = ''openai/gpt-5-nano'', p_sandboxId = ''sbx_1''\<rparr>,
       AppendTraceEvent ''trace-1'' (ToolCall ''c1'' ''runInSandbox'' (JStr ''44*44'') 1000),
       AppendTraceEvent ''trace-1'' (ToolResult ''c1'' ''runInSandbox'' (JStr ''1936'') 1001),
       Enqueue ''1936'',
       FinishTrace ''trace-1'', Close, SandboxStop])"
  by (simp add: POST_def sampleWorld_def requestSchema_safeParse_def trim_def isWhiteSpace_def
      credentialAbsent_def Let_def leave_def finallyBlock_def stopSandbox_def)

lemma POST_sampleWorld_cancelled:
  "snd (POST (sampleWorld\<lparr>w_cancelAt := Some 1\<rparr>)) =
     [SandboxCreate,
      StartTrace \<lparr>p_id = ''trace-1'', p_prompt = ''What is 44 x 44?'',
                  p_model = ''openai/gpt-5-nano'', p_sandboxId = ''sbx_1''\<rparr>,
      AppendTraceEvent ''trace-1'' (ToolCall ''c1'' ''runInSandbox'' (JStr ''44*44'') 1000),
      FinishTrace ''trace-1'', SandboxStop,
      AppendTraceEvent ''trace-1'' (ToolResult ''c1'' ''runInSandbox'' (JStr ''1936'') 1001),
      AppendTraceEvent ''trace-1''
        (ToolError None None ''Invalid state: Controller is already closed'' 1002),
      FinishTrace ''trace-1'']"
  by (simp add: POST_def sampleWorld_def requestSchema_safeParse_def trim_def isWhiteSpace_def
      credentialAbsent_def Let_def leave_def finallyBlock_def stopSandbox_def cancel_def
      catchBlock_def enqueueOnClosed_def)

lemma POST_sampleWorld_late_cancel:
  "snd (POST (sampleWorld\<lparr>w_lateCancel := True\<rparr>)) =
     [SandboxCreate,
      StartTrace \<lparr>p_id = ''trace-1'', p_prompt = ''What is 44 x 44?'',
                  p_model = ''openai/gpt-5-nano'', p_sandboxId = ''sbx_1''\<rparr>,
      AppendTraceEvent ''trace-1'' (ToolCall ''c1'' ''runInSandbox'' (JStr ''44*44'') 1000),
      AppendTraceEvent ''trace-1'' (ToolResult ''c1'' ''runInSandbox'' (JStr ''1936'') 1001),
      Enqueue ''1936'',
      FinishTrace ''trace-1'', Close, SandboxStop,
      FinishTrace ''trace-1'', SandboxStop]"
  by (simp add: POST_def sampleWorld_def requestSchema_safeParse_def trim_def isWhiteSpace_def
      credentialAbsent_def Let_def leave_def finallyBlock_def stopSandbox_def cancel_def)

lemma POST_sampleWorld_append_throws:
  "snd (POST (sampleWorld\<lparr>w_appendThrows := (\<lambda>i. if i = 1 then Some ''boom'' else None)\<rparr>)) =
     [SandboxCreate,
      StartTrace \<lparr>p_id = ''trace-1'', p_prompt = ''What is 44 x 44?'',
                  p_model = ''openai/gpt-5-nano'', p_sandboxId = ''sbx_1''\<rparr>,
      AppendTraceEvent ''trace-1'' (ToolCall ''c1'' ''runInSandbox'' (JStr ''44*44'') 1000),
      AppendTraceEvent ''trace-1'' (ToolResult ''c1'' ''runInSandbox'' (JStr ''1936'') 1001),
      AppendTraceEvent ''trace-1'' (ToolError None None ''boom'' 1001),
      FinishTrace ''trace-1'', Close, SandboxStop]"
  by (simp add: POST_def sampleWorld_def requestSchema_safeParse_def trim_def isWhiteSpace_def
      credentialAbsent_def Let_def leave_def finallyBlock_def stopSandbox_def catchBlock_def)

end
